theory Spec2Isabelle
  imports Main "HOL-Library.Word"
begin

unbundle bit_operations_syntax

section \<open>Data of the broker edge\<close>

text \<open>
  The handlers of \<^verbatim>\<open>internal/broker/handlers.go\<close> and the request and response
  types beside them are embedded here. Go byte slices and strings are byte lists;
  \<^verbatim>\<open>uint8\<close>, \<^verbatim>\<open>uint16\<close>, \<^verbatim>\<open>uint32\<close>, \<^verbatim>\<open>int32\<close> and \<^verbatim>\<open>int64\<close> are words of that
  width; a \<^verbatim>\<open>time.Time\<close> is the number of nanoseconds since the Unix epoch, so
  \<^verbatim>\<open>time.Unix(0, 0)\<close> is \<open>0\<close>.
\<close>

type_synonym bytes = string
type_synonym time = int
type_synonym ssid = "32 word list"

text \<open>The values of package \<^verbatim>\<open>errors\<close> that the handlers return.\<close>

datatype error =
    ErrBadRequest
  | ErrUnauthorized
  | ErrUnauthorizedExt
  | ErrForbidden
  | ErrNotFound
  | ErrServerError
  | ErrLinkInvalid

text \<open>
  Modelled from the spec: the constants \<^verbatim>\<open>security.ChannelInvalid\<close>,
  \<^verbatim>\<open>security.ChannelStatic\<close> and the wildcard type are not under src/; the spec's data
  model gives a channel type in \<open>{Invalid, Static, Wildcard}\<close>.
\<close>

datatype chantype = ChannelInvalid | ChannelStatic | ChannelWildcard

text \<open>
  \<^verbatim>\<open>security.Channel\<close>: the handlers read its fields \<^verbatim>\<open>Key\<close>, \<^verbatim>\<open>Channel\<close>,
  \<^verbatim>\<open>Query\<close> and \<^verbatim>\<open>ChannelType\<close>; the options are the association list of the spec's
  data model.
\<close>

record channel =
  Key :: bytes
  Channel :: bytes
  Query :: "32 word list"
  Options :: "(string \<times> string) list"
  ChannelType :: chantype

text \<open>
  Modelled from the spec: \<^verbatim>\<open>message.Message\<close>, \<^verbatim>\<open>message.New\<close>, \<^verbatim>\<open>Stored\<close> and
  \<^verbatim>\<open>message.NewSsid\<close> are not under src/. A message is \<open>{ssid, channel_path, payload,
  ttl}\<close>, a new message is transient (\<open>ttl = 0\<close>), \<open>Stored()\<close> is true iff \<open>ttl > 0\<close>
  and an SSID is \<open>[contract_id, q0, q1, ...]\<close>.
\<close>

record message =
  msg_Ssid :: ssid
  msg_Channel :: bytes
  msg_Payload :: bytes
  TTL :: "32 word"

definition New :: "ssid \<Rightarrow> bytes \<Rightarrow> bytes \<Rightarrow> message" where
  "New s ch payload = \<lparr>msg_Ssid = s, msg_Channel = ch, msg_Payload = payload, TTL = 0\<rparr>"

definition Stored :: "message \<Rightarrow> bool" where
  "Stored m = (0 < TTL m)"

definition NewSsid :: "32 word \<Rightarrow> 32 word list \<Rightarrow> ssid" where
  "NewSsid contract query = contract # query"

text \<open>\<^verbatim>\<open>mqtt.Publish\<close>, as far as \<^verbatim>\<open>onPublish\<close> reads it.\<close>

record publish =
  Topic :: bytes
  Payload :: bytes
  MessageID :: "16 word"
  Retain :: bool

subsection \<open>Requests and responses\<close>

record keyGenRequest =
  kg_Key :: string
  kg_Channel :: string
  kg_Type :: string
  kg_TTL :: "32 word"

record linkRequest =
  ln_Name :: string
  ln_Key :: string
  ln_Channel :: string
  ln_Subscribe :: bool
  ln_Private :: bool

text \<open>\<^verbatim>\<open>Changes\<close> is a \<^verbatim>\<open>*bool\<close>: \<open>None\<close> is the nil pointer.\<close>

record presenceRequest =
  pr_Key :: string
  pr_Channel :: string
  pr_Status :: bool
  pr_Changes :: "bool option"

record presenceInfo =
  pi_ID :: string
  pi_Username :: string

text \<open>
  The \<^verbatim>\<open>response\<close> interface: an error of package \<^verbatim>\<open>errors\<close> or one of the four
  response structs, with the fields the handlers set (\<^verbatim>\<open>Request\<close> is set later, by
  \<^verbatim>\<open>ForRequest\<close>). A nil response is \<open>None\<close> of \<open>response option\<close>.
\<close>

datatype response =
    ErrorResponse error
  | KeyGenResponse (kr_Status: int) (kr_Key: string) (kr_Channel: string)
  | LinkResponse (lr_Status: int) (lr_Name: string) (lr_Channel: string)
  | MeResponse (mr_ID: string) (mr_Links: "string \<rightharpoonup> string")
  | PresenceResponse (ps_Time: int) (ps_Event: string) (ps_Channel: string)
      (ps_Who: "presenceInfo list")

definition presenceStatusEvent :: string where
  "presenceStatusEvent = ''status''"

text \<open>A handler either returns or panics (a nil map written, a nil pointer read).\<close>

datatype 'a result = Panic | Return 'a

text \<open>What the subscription trie holds besides client connections.\<close>

datatype subscriber = ConnSubscriber (sub_ID: string) (sub_Username: string) | OtherSubscriber

datatype 'c stat = AddIngress 'c "64 word" | AddEgress 'c "64 word"

subsection \<open>The collaborators of the handlers\<close>

text \<open>
  The packages \<^verbatim>\<open>security\<close>, \<^verbatim>\<open>message\<close>, the key provider, the contract cache, the
  store, the cluster survey and the JSON and binary codecs are not under src/. Their
  constants and functions are the fields of an environment the handlers take as a
  parameter: nothing is assumed of them. \<open>'k\<close> is \<^verbatim>\<open>security.Key\<close>, \<open>'c\<close> is
  \<^verbatim>\<open>contract.Contract\<close>. \<open>now\<close> is \<^verbatim>\<open>time.Now()\<close>; \<^verbatim>\<open>IsExpired\<close> reads the same clock.
\<close>

record ('k, 'c) env =
  AllowNone :: "8 word"
  AllowRead :: "8 word"
  AllowWrite :: "8 word"
  AllowStore :: "8 word"
  AllowLoad :: "8 word"
  AllowPresence :: "8 word"
  AllowExtend :: "8 word"
  AllowExecute :: "8 word"
  AllowAll :: "8 word"
  RetainedTTL :: "32 word"
  now :: time
  ParseChannel :: "bytes \<Rightarrow> channel"
  MakeChannel :: "string \<Rightarrow> string \<Rightarrow> channel option"
  ChannelString :: "channel \<Rightarrow> string"
  SafeString :: "channel \<Rightarrow> string"
  ChannelTTL :: "channel \<Rightarrow> 64 word \<times> bool"
  Last :: "channel \<Rightarrow> 64 word \<times> bool"
  Window :: "channel \<Rightarrow> time \<times> time"
  Exclude :: "channel \<Rightarrow> bool"
  HasPermission :: "'k \<Rightarrow> 8 word \<Rightarrow> bool"
  Contract :: "'k \<Rightarrow> 32 word"
  IsMaster :: "'k \<Rightarrow> bool"
  IsExpired :: "'k \<Rightarrow> bool"
  authorize :: "channel \<Rightarrow> 8 word \<Rightarrow> 'c \<times> 'k \<times> bool"
  DecryptKey :: "string \<Rightarrow> error + 'k"
  CreateKey :: "string \<Rightarrow> string \<Rightarrow> 8 word \<Rightarrow> time \<Rightarrow> error + string"
  ExtendKey :: "string \<Rightarrow> string \<Rightarrow> string \<Rightarrow> 8 word \<Rightarrow> time \<Rightarrow> error + channel option"
  contractsGet :: "32 word \<Rightarrow> 'c option"
  Validate :: "'c \<Rightarrow> 'k \<Rightarrow> bool"
  storageQuery :: "ssid \<Rightarrow> time \<Rightarrow> time \<Rightarrow> 64 word \<Rightarrow> string + message list"
  publishSize :: "message \<Rightarrow> string \<Rightarrow> 64 word"
  NewSsidForPresence :: "ssid \<Rightarrow> ssid"
  Lookup :: "ssid \<Rightarrow> subscriber list"
  MarshalSsid :: "ssid \<Rightarrow> bytes option"
  Survey :: "string \<Rightarrow> bytes \<Rightarrow> bytes list option"
  UnmarshalInfo :: "bytes \<Rightarrow> presenceInfo list option"
  unmarshalKeyGen :: "bytes \<Rightarrow> keyGenRequest \<Rightarrow> keyGenRequest option"
  unmarshalLink :: "bytes \<Rightarrow> linkRequest \<Rightarrow> linkRequest option"
  unmarshalPresence :: "bytes \<Rightarrow> presenceRequest \<Rightarrow> presenceRequest option"

subsection \<open>The connection and what its handlers change\<close>

text \<open>
  \<^verbatim>\<open>Conn\<close> with the effects of its handlers made explicit. \<open>links\<close> is the Go map
  \<^verbatim>\<open>c.links\<close> (\<open>None\<close> is the nil map). \<open>subs\<close> is the subscription trie, holding the
  entries \<open>(ssid, channel_path, connection id)\<close>. The other fields log the calls that
  leave the handler: \<^verbatim>\<open>c.Send\<close>, \<^verbatim>\<open>storage.Store\<close>, \<^verbatim>\<open>service.publish\<close> (the fan-out,
  with the excluded id), \<^verbatim>\<open>c.track\<close>, the contract's statistics and
  \<^verbatim>\<open>c.sendResponse\<close>.
\<close>

record 'c conn =
  ID :: string
  username :: string
  links :: "(string \<rightharpoonup> string) option"
  subs :: "(ssid \<times> bytes \<times> string) set"
  sent :: "message list"
  stored :: "message list"
  fanout :: "(message \<times> string) list"
  tracked :: "'c list"
  stats :: "'c stat list"
  replies :: "(string \<times> response \<times> 16 word) list"

text \<open>
  Modelled from the spec: \<^verbatim>\<open>Conn.Subscribe\<close> and \<^verbatim>\<open>Conn.Unsubscribe\<close> are not under
  src/. Subscribing inserts \<open>(ssid, channel_path, self)\<close> into the trie (idempotent per
  connection); unsubscribing removes that entry, and removing an entry that is not
  there changes nothing.
\<close>

definition Subscribe :: "ssid \<Rightarrow> bytes \<Rightarrow> 'c conn \<Rightarrow> 'c conn" where
  "Subscribe s ch c = c\<lparr>subs := insert (s, ch, ID c) (subs c)\<rparr>"

definition Unsubscribe :: "ssid \<Rightarrow> bytes \<Rightarrow> 'c conn \<Rightarrow> 'c conn" where
  "Unsubscribe s ch c = c\<lparr>subs := subs c - {(s, ch, ID c)}\<rparr>"

text \<open>
  \<^verbatim>\<open>Conn.Send\<close>, \<^verbatim>\<open>Conn.track\<close>, \<^verbatim>\<open>storage.Store\<close> and \<^verbatim>\<open>Conn.sendResponse\<close> are
  not under src/ either: each call is recorded, in the order of the calls.
\<close>

definition Send :: "message \<Rightarrow> 'c conn \<Rightarrow> 'c conn" where
  "Send m c = c\<lparr>sent := sent c @ [m]\<rparr>"

definition track :: "'c \<Rightarrow> 'c conn \<Rightarrow> 'c conn" where
  "track contract c = c\<lparr>tracked := tracked c @ [contract]\<rparr>"

definition Store :: "message \<Rightarrow> 'c conn \<Rightarrow> 'c conn" where
  "Store m c = c\<lparr>stored := stored c @ [m]\<rparr>"

definition sendResponse :: "string \<Rightarrow> response \<Rightarrow> 16 word \<Rightarrow> 'c conn \<Rightarrow> 'c conn" where
  "sendResponse topic resp requestID c = c\<lparr>replies := replies c @ [(topic, resp, requestID)]\<rparr>"

section \<open>Subscribe and unsubscribe\<close>

text \<open>
  \<^verbatim>\<open>onSubscribe\<close>. The limit of the replay is 1 unless the channel has a \<^verbatim>\<open>last\<close>
  option; \<^verbatim>\<open>int(limit)\<close> keeps all 64 bits. Logging is left out.
\<close>

definition onSubscribe :: "('k, 'c) env \<Rightarrow> 'c conn \<Rightarrow> bytes \<Rightarrow> error option \<times> 'c conn" where
  "onSubscribe e c mqttTopic =
    (let channel = ParseChannel e mqttTopic in
     if ChannelType channel = ChannelInvalid then (Some ErrBadRequest, c)
     else case authorize e channel (AllowRead e) of (contract, key, allowed) \<Rightarrow>
       if \<not> allowed then (Some ErrUnauthorized, c)
       else if HasPermission e key (AllowExtend e) then (Some ErrUnauthorizedExt, c)
       else
         let ssid = NewSsid (Contract e key) (Query channel);
             c1 = Subscribe ssid (Channel channel) c;
             limit = (case Last e channel of (v, ok) \<Rightarrow> if ok then v else 1)
         in if HasPermission e key (AllowLoad e) then
              (case Window e channel of (t0, t1) \<Rightarrow>
                 (case storageQuery e ssid t0 t1 limit of
                    Inl err \<Rightarrow> (Some ErrServerError, c1)
                  | Inr msgs \<Rightarrow> (None, track contract (foldl (\<lambda>c' m. Send m c') c1 msgs))))
            else (None, track contract c1))"

text \<open>\<^verbatim>\<open>onUnsubscribe\<close>.\<close>

definition onUnsubscribe :: "('k, 'c) env \<Rightarrow> 'c conn \<Rightarrow> bytes \<Rightarrow> error option \<times> 'c conn" where
  "onUnsubscribe e c mqttTopic =
    (let channel = ParseChannel e mqttTopic in
     if ChannelType channel = ChannelInvalid then (Some ErrBadRequest, c)
     else case authorize e channel (AllowRead e) of (contract, key, allowed) \<Rightarrow>
       if \<not> allowed then (Some ErrUnauthorized, c)
       else
         let ssid = NewSsid (Contract e key) (Query channel)
         in (None, track contract (Unsubscribe ssid (Channel channel) c)))"

section \<open>Publish\<close>

text \<open>
  Reading a Go map gives the zero value (the empty string) for a key that is not
  there, and for every key of a nil map.
\<close>

definition mapRead :: "(string \<rightharpoonup> string) option \<Rightarrow> string \<Rightarrow> string" where
  "mapRead m k = (case m of None \<Rightarrow> [] | Some f \<Rightarrow> (case f k of None \<Rightarrow> [] | Some v \<Rightarrow> v))"

text \<open>
  The first statement of \<^verbatim>\<open>onPublish\<close>: the topic that is handed to the parser.
  \<^verbatim>\<open>if len(mqttTopic) <= 2 && c.links != nil { mqttTopic = []byte(c.links[string(mqttTopic)]) }\<close>
\<close>

definition linkedTopic :: "'c conn \<Rightarrow> bytes \<Rightarrow> bytes" where
  "linkedTopic c mqttTopic =
    (if length mqttTopic \<le> 2 \<and> links c \<noteq> None then mapRead (links c) mqttTopic
     else mqttTopic)"

section \<open>The emitter requests\<close>

definition requestKeygen :: "32 word" where "requestKeygen = 548658350"
definition requestPresence :: "32 word" where "requestPresence = 3869262148"
definition requestLink :: "32 word" where "requestLink = 2667034312"
definition requestMe :: "32 word" where "requestMe = 2539734036"

subsection \<open>Link and me\<close>

text \<open>
  \<^verbatim>\<open>shortcut = regexp.MustCompile("^[a-zA-Z0-9]{1,2}$")\<close>: between the two anchors, a
  run of one or two characters of the class. The class holds ASCII characters only, so
  matching bytes is matching runes: a byte from 128 on is never in the class.
\<close>

definition inRange :: "char \<Rightarrow> char \<Rightarrow> char \<Rightarrow> bool" where
  "inRange lo hi c = ((of_char lo :: nat) \<le> of_char c \<and> (of_char c :: nat) \<le> of_char hi)"

definition shortcutClass :: "char \<Rightarrow> bool" where
  "shortcutClass c =
    (inRange CHR ''a'' CHR ''z'' c \<or> inRange CHR ''A'' CHR ''Z'' c \<or> inRange CHR ''0'' CHR ''9'' c)"

fun matchRun :: "(char \<Rightarrow> bool) \<Rightarrow> nat \<Rightarrow> nat \<Rightarrow> string \<Rightarrow> bool" where
  "matchRun cls lo hi [] = (lo = 0)"
| "matchRun cls lo hi (c # cs) = (0 < hi \<and> cls c \<and> matchRun cls (lo - 1) (hi - 1) cs)"

definition shortcut :: "string \<Rightarrow> bool" where
  "shortcut name = matchRun shortcutClass 1 2 name"

text \<open>
  \<^verbatim>\<open>onLink\<close>. \<^verbatim>\<open>ExtendKey\<close> and \<^verbatim>\<open>MakeChannel\<close> return a channel pointer that the
  handler tests for nil. Writing \<^verbatim>\<open>c.links[request.Name]\<close> panics when the map is nil.
\<close>

definition onLink ::
  "('k, 'c) env \<Rightarrow> 'c conn \<Rightarrow> bytes \<Rightarrow> ((response option \<times> bool) \<times> 'c conn) result" where
  "onLink e c payload =
    (case unmarshalLink e payload
        \<lparr>ln_Name = [], ln_Key = [], ln_Channel = [], ln_Subscribe = False, ln_Private = False\<rparr> of
       None \<Rightarrow> Return ((Some (ErrorResponse ErrBadRequest), False), c)
     | Some request \<Rightarrow>
         if \<not> shortcut (ln_Name request)
         then Return ((Some (ErrorResponse ErrLinkInvalid), False), c)
         else
           (case (if ln_Private request
                  then ExtendKey e (ln_Key request) (ln_Channel request) (ID c) (AllowAll e) 0
                  else Inr (MakeChannel e (ln_Key request) (ln_Channel request))) of
              Inl err \<Rightarrow> Return ((Some (ErrorResponse err), False), c)
            | Inr None \<Rightarrow> Return ((Some (ErrorResponse ErrBadRequest), False), c)
            | Inr (Some channel) \<Rightarrow>
                if ChannelType channel = ChannelInvalid
                then Return ((Some (ErrorResponse ErrBadRequest), False), c)
                else
                  (case links c of
                     None \<Rightarrow> Panic
                   | Some m \<Rightarrow>
                       let c1 = c\<lparr>links := Some (m(ln_Name request \<mapsto> ChannelString e channel))\<rparr>;
                           c2 = (case authorize e channel (AllowRead e) of
                                   (contract, key, allowed) \<Rightarrow>
                                     if allowed \<and> ln_Subscribe request
                                     then Subscribe (NewSsid (Contract e key) (Query channel))
                                            (Channel channel) c1
                                     else c1)
                       in Return ((Some (LinkResponse 200 (ln_Name request) (SafeString e channel)),
                                   True), c2))))"

text \<open>\<^verbatim>\<open>onMe\<close>: a fresh map with every link rewritten; ranging over a nil map does nothing.\<close>

definition onMe :: "('k, 'c) env \<Rightarrow> 'c conn \<Rightarrow> response option \<times> bool" where
  "onMe e c =
    (Some (MeResponse (ID c)
       (case links c of
          None \<Rightarrow> Map.empty
        | Some m \<Rightarrow> (\<lambda>k. map_option (\<lambda>v. SafeString e (ParseChannel e v)) (m k)))),
     True)"

subsection \<open>Keygen\<close>

text \<open>
  \<^verbatim>\<open>keyGenRequest.expires\<close>: \<^verbatim>\<open>time.Duration(m.TTL) * time.Second\<close> is a product of
  64-bit integers.
\<close>

definition expires :: "('k, 'c) env \<Rightarrow> keyGenRequest \<Rightarrow> time" where
  "expires e m =
    (if kg_TTL m = 0 then 0
     else now e + sint ((scast (kg_TTL m) :: 64 word) * 1000000000))"

text \<open>\<^verbatim>\<open>keyGenRequest.access\<close>: the loop over the bytes of \<^verbatim>\<open>m.Type\<close>.\<close>

fun accessLoop :: "('k, 'c) env \<Rightarrow> string \<Rightarrow> 8 word \<Rightarrow> 8 word" where
  "accessLoop e [] required = required"
| "accessLoop e (c # cs) required =
    accessLoop e cs
      (if c = CHR ''r'' then required OR AllowRead e
       else if c = CHR ''w'' then required OR AllowWrite e
       else if c = CHR ''s'' then required OR AllowStore e
       else if c = CHR ''l'' then required OR AllowLoad e
       else if c = CHR ''p'' then required OR AllowPresence e
       else if c = CHR ''e'' then required OR AllowExtend e
       else if c = CHR ''x'' then required OR AllowExecute e
       else required)"

definition access :: "('k, 'c) env \<Rightarrow> keyGenRequest \<Rightarrow> 8 word" where
  "access e m = accessLoop e (kg_Type m) (AllowNone e)"

text \<open>
  \<^verbatim>\<open>onKeyGen\<close>. In the branch of an extendable key, \<^verbatim>\<open>channel.Key\<close> is read without a
  test for nil.
\<close>

definition onKeyGen ::
  "('k, 'c) env \<Rightarrow> 'c conn \<Rightarrow> bytes \<Rightarrow> (response option \<times> bool) result" where
  "onKeyGen e c payload =
    (case unmarshalKeyGen e payload \<lparr>kg_Key = [], kg_Channel = [], kg_Type = [], kg_TTL = 0\<rparr> of
       None \<Rightarrow> Return (Some (ErrorResponse ErrBadRequest), False)
     | Some message \<Rightarrow>
         (case DecryptKey e (kg_Key message) of
            Inl err \<Rightarrow> Return (Some (ErrorResponse ErrUnauthorized), False)
          | Inr parentKey \<Rightarrow>
              if IsExpired e parentKey then Return (Some (ErrorResponse ErrUnauthorized), False)
              else if IsMaster e parentKey then
                (case CreateKey e (kg_Key message) (kg_Channel message)
                        (access e message) (expires e message) of
                   Inl err \<Rightarrow> Return (Some (ErrorResponse err), False)
                 | Inr key \<Rightarrow>
                     Return (Some (KeyGenResponse 200 key (kg_Channel message)), True))
              else if HasPermission e parentKey (AllowExtend e) then
                (case ExtendKey e (kg_Key message) (kg_Channel message) (ID c)
                        (access e message) (expires e message) of
                   Inl err \<Rightarrow> Return (Some (ErrorResponse err), False)
                 | Inr None \<Rightarrow> Panic
                 | Inr (Some channel) \<Rightarrow>
                     Return (Some (KeyGenResponse 200 (Key channel) (Channel channel)), True))
              else Return (Some (ErrorResponse ErrUnauthorized), False)))"

subsection \<open>Presence\<close>

text \<open>\<^verbatim>\<open>lookupPresence\<close>: the subscribers of the trie that are client connections.\<close>

fun lookupLoop :: "subscriber list \<Rightarrow> presenceInfo list \<Rightarrow> presenceInfo list" where
  "lookupLoop [] resp = resp"
| "lookupLoop (ConnSubscriber i u # xs) resp =
    lookupLoop xs (resp @ [\<lparr>pi_ID = i, pi_Username = u\<rparr>])"
| "lookupLoop (OtherSubscriber # xs) resp = lookupLoop xs resp"

definition lookupPresence :: "('k, 'c) env \<Rightarrow> ssid \<Rightarrow> presenceInfo list" where
  "lookupPresence e s = lookupLoop (Lookup e s) []"

text \<open>
  \<^verbatim>\<open>getClusterPresence\<close>: \<open>Survey\<close> stands for the survey and the gathering of its
  answers until the deadline; an answer that does not decode is skipped.
\<close>

fun gatherLoop :: "('k, 'c) env \<Rightarrow> bytes list \<Rightarrow> presenceInfo list \<Rightarrow> presenceInfo list" where
  "gatherLoop e [] who = who"
| "gatherLoop e (resp # rs) who =
    gatherLoop e rs (case UnmarshalInfo e resp of None \<Rightarrow> who | Some info \<Rightarrow> who @ info)"

definition getClusterPresence :: "('k, 'c) env \<Rightarrow> ssid \<Rightarrow> presenceInfo list" where
  "getClusterPresence e s =
    (case MarshalSsid e s of
       None \<Rightarrow> []
     | Some req \<Rightarrow>
         (case Survey e ''presence'' req of
            None \<Rightarrow> []
          | Some resps \<Rightarrow> gatherLoop e resps []))"

definition getLocalPresence :: "('k, 'c) env \<Rightarrow> ssid \<Rightarrow> presenceInfo list" where
  "getLocalPresence e s = lookupPresence e s"

definition getAllPresence :: "('k, 'c) env \<Rightarrow> ssid \<Rightarrow> presenceInfo list" where
  "getAllPresence e s = getLocalPresence e s @ getClusterPresence e s"

definition HasSuffix :: "string \<Rightarrow> string \<Rightarrow> bool" where
  "HasSuffix s suf =
    (length suf \<le> length s \<and> drop (length s - length suf) s = suf)"

text \<open>
  \<^verbatim>\<open>onPresence\<close>. The request starts with \<^verbatim>\<open>Status: true\<close> and \<^verbatim>\<open>Changes: nil\<close>, and
  the JSON body overwrites the fields it names. \<^verbatim>\<open>Unix()\<close> is the time in whole
  seconds.
\<close>

definition onPresence ::
  "('k, 'c) env \<Rightarrow> 'c conn \<Rightarrow> bytes \<Rightarrow> (response option \<times> bool) \<times> 'c conn" where
  "onPresence e c payload =
    (case unmarshalPresence e payload
        \<lparr>pr_Key = [], pr_Channel = [], pr_Status = True, pr_Changes = None\<rparr> of
       None \<Rightarrow> ((Some (ErrorResponse ErrBadRequest), False), c)
     | Some msg \<Rightarrow>
         (case DecryptKey e (pr_Key msg) of
            Inl err \<Rightarrow> ((Some (ErrorResponse ErrUnauthorized), False), c)
          | Inr key \<Rightarrow>
              if \<not> HasPermission e key (AllowPresence e) \<or> IsExpired e key
              then ((Some (ErrorResponse ErrUnauthorized), False), c)
              else
                (case contractsGet e (Contract e key) of
                   None \<Rightarrow> ((Some (ErrorResponse ErrNotFound), False), c)
                 | Some contract \<Rightarrow>
                     if \<not> Validate e contract key
                     then ((Some (ErrorResponse ErrUnauthorized), False), c)
                     else
                       let name = (if HasSuffix (pr_Channel msg) ''/'' then pr_Channel msg
                                   else pr_Channel msg @ ''/'');
                           channel = ParseChannel e (''emitter/'' @ name)
                       in if ChannelType channel = ChannelInvalid
                          then ((Some (ErrorResponse ErrBadRequest), False), c)
                          else
                            let ssid = NewSsid (Contract e key) (Query channel);
                                c1 = (case pr_Changes msg of
                                        None \<Rightarrow> c
                                      | Some changes \<Rightarrow>
                                          if changes
                                          then Subscribe (NewSsidForPresence e ssid) [] c
                                          else Unsubscribe (NewSsidForPresence e ssid) [] c);
                                unix = now e div 1000000000
                            in if pr_Status msg
                               then ((Some (PresenceResponse unix presenceStatusEvent name
                                              ([] @ getAllPresence e ssid)), True), c1)
                               else ((None, True), c1))))"

subsection \<open>The router\<close>

text \<open>
  \<^verbatim>\<open>onEmitterRequest\<close>. The deferred function sends the response unless it is nil.
  A panic of a handler leaves the router as a panic.
\<close>

definition respond ::
  "('k, 'c) env \<Rightarrow> channel \<Rightarrow> 16 word \<Rightarrow> response option \<times> bool \<Rightarrow> 'c conn \<Rightarrow> (bool \<times> 'c conn) result" where
  "respond e channel requestID r c =
    Return (snd r,
      (case fst r of
         None \<Rightarrow> c
       | Some resp \<Rightarrow> sendResponse (ChannelString e channel) resp requestID c))"

definition onEmitterRequest ::
  "('k, 'c) env \<Rightarrow> 'c conn \<Rightarrow> channel \<Rightarrow> bytes \<Rightarrow> 16 word \<Rightarrow> (bool \<times> 'c conn) result" where
  "onEmitterRequest e c channel payload requestID =
    (case Query channel of
       [] \<Rightarrow> respond e channel requestID (Some (ErrorResponse ErrNotFound), False) c
     | q # qs \<Rightarrow>
         if q = requestKeygen then
           (case onKeyGen e c payload of
              Panic \<Rightarrow> Panic
            | Return r \<Rightarrow> respond e channel requestID r c)
         else if q = requestPresence then
           (case onPresence e c payload of (r, c') \<Rightarrow> respond e channel requestID r c')
         else if q = requestMe then respond e channel requestID (onMe e c) c
         else if q = requestLink then
           (case onLink e c payload of
              Panic \<Rightarrow> Panic
            | Return (r, c') \<Rightarrow> respond e channel requestID r c')
         else respond e channel requestID (Some (ErrorResponse ErrNotFound), False) c)"

subsection \<open>The publish handler\<close>

text \<open>
  \<^verbatim>\<open>onPublish\<close>. \<^verbatim>\<open>ttl > 0\<close> compares signed 64-bit integers and \<^verbatim>\<open>uint32(ttl)\<close>
  keeps the low 32 bits. The excluded id is the empty string unless the channel has
  the option \<^verbatim>\<open>me=0\<close>.
\<close>

definition onPublish ::
  "('k, 'c) env \<Rightarrow> 'c conn \<Rightarrow> publish \<Rightarrow> (error option \<times> 'c conn) result" where
  "onPublish e c packet =
    (let mqttTopic = linkedTopic c (Topic packet);
         channel = ParseChannel e mqttTopic
     in if ChannelType channel = ChannelInvalid then Return (Some ErrBadRequest, c)
        else if ChannelType channel \<noteq> ChannelStatic then Return (Some ErrForbidden, c)
        else if length (Key channel) = 7 \<and> Key channel = ''emitter'' then
          (case onEmitterRequest e c channel (Payload packet) (MessageID packet) of
             Panic \<Rightarrow> Panic
           | Return (ok, c') \<Rightarrow> Return (None, c'))
        else case authorize e channel (AllowWrite e) of (contract, key, allowed) \<Rightarrow>
          if \<not> allowed then Return (Some ErrUnauthorized, c)
          else if HasPermission e key (AllowExtend e) then Return (Some ErrUnauthorizedExt, c)
          else
            let msg = New (NewSsid (Contract e key) (Query channel)) (Channel channel)
                        (Payload packet);
                msg1 = (if Retain packet then msg\<lparr>TTL := RetainedTTL e\<rparr> else msg);
                msg2 = (case ChannelTTL e channel of
                          (ttl, ok) \<Rightarrow> if ok \<and> 0 <s ttl then msg1\<lparr>TTL := ucast ttl\<rparr> else msg1);
                c1 = (if Stored msg2 \<and> HasPermission e key (AllowStore e)
                      then Store msg2 c else c);
                exclude = (if Exclude e channel then ID c else []);
                size = publishSize e msg2 exclude;
                c2 = c1\<lparr>fanout := fanout c1 @ [(msg2, exclude)]\<rparr>;
                c3 = track contract c2
            in Return (None,
                 c3\<lparr>stats := stats c3 @
                    [AddIngress contract (of_nat (length (Payload packet))),
                     AddEgress contract size]\<rparr>))"

section \<open>The grammar and the flags as the specification words them\<close>

text \<open>
  The link name grammar of the specification, \<^verbatim>\<open>^[A-Za-z0-9]{1,2}$\<close>: one or two
  characters, each a letter or a digit.
\<close>

definition alnum :: "char set" where
  "alnum = set ''ABCDEFGHIJKLMNOPQRSTUVWXYZabcdefghijklmnopqrstuvwxyz0123456789''"

definition shortcutGrammar :: "string \<Rightarrow> bool" where
  "shortcutGrammar name = ((length name = 1 \<or> length name = 2) \<and> set name \<subseteq> alnum)"

text \<open>
  The flags of a keygen request as the specification lists them: each of the seven
  characters stands for one permission, any other character for none.
\<close>

definition permissionOf :: "('k, 'c) env \<Rightarrow> char \<Rightarrow> 8 word option" where
  "permissionOf e =
    map_of [(CHR ''r'', AllowRead e), (CHR ''w'', AllowWrite e), (CHR ''s'', AllowStore e),
            (CHR ''l'', AllowLoad e), (CHR ''p'', AllowPresence e), (CHR ''e'', AllowExtend e),
            (CHR ''x'', AllowExecute e)]"

section \<open>A small broker for the examples\<close>

text \<open>
  The examples run the handlers on this environment. Its keys are one-letter strings
  (\<open>m\<close> a master key, \<open>n\<close> a master key of a contract the cache does not hold, \<open>w\<close>
  write and store, \<open>r\<close> read and load, \<open>x\<close> read, write and extend, \<open>p\<close> presence,
  \<open>u\<close> read only), a topic is \<^verbatim>\<open>key/path/\<close> with an optional \<^verbatim>\<open>?ttl=0\<close> or
  \<^verbatim>\<open>?ttl=60\<close>, a path with \<^verbatim>\<open>+\<close> is a wildcard, and the store fails for the SSID
  \<open>[1, 2]\<close>. The permission bits are one bit each.
\<close>

record demoKey =
  dk_Contract :: "32 word"
  dk_Master :: bool
  dk_Expired :: bool
  dk_Permissions :: "8 word"

definition demoKeyOf :: "32 word \<Rightarrow> bool \<Rightarrow> 8 word \<Rightarrow> demoKey" where
  "demoKeyOf ct master perms =
    \<lparr>dk_Contract = ct, dk_Master = master, dk_Expired = False, dk_Permissions = perms\<rparr>"

definition demoDecrypt :: "string \<Rightarrow> error + demoKey" where
  "demoDecrypt k =
    (if k = ''m'' then Inr (demoKeyOf 1 True 1)
     else if k = ''n'' then Inr (demoKeyOf 9 True 1)
     else if k = ''w'' then Inr (demoKeyOf 1 False 12)
     else if k = ''r'' then Inr (demoKeyOf 1 False 18)
     else if k = ''x'' then Inr (demoKeyOf 1 False 70)
     else if k = ''p'' then Inr (demoKeyOf 1 False 32)
     else if k = ''u'' then Inr (demoKeyOf 1 False 2)
     else Inl ErrUnauthorized)"

definition demoContracts :: "32 word \<Rightarrow> 32 word option" where
  "demoContracts i = (if i = 1 then Some 1 else None)"

definition demoInvalid :: channel where
  "demoInvalid = \<lparr>Key = [], Channel = [], Query = [], Options = [], ChannelType = ChannelInvalid\<rparr>"

definition demoParse :: "bytes \<Rightarrow> channel" where
  "demoParse t =
    (let key = takeWhile (\<lambda>c. c \<noteq> CHR ''/'') t;
         rest = drop (length key + 1) t;
         path = takeWhile (\<lambda>c. c \<noteq> CHR ''?'') rest;
         opts = drop (length path + 1) rest
     in if key = [] \<or> path = [] \<or> last path \<noteq> CHR ''/'' \<or> CHR '' '' \<in> set path
        then demoInvalid
        else \<lparr>Key = key, Channel = path, Query = [of_nat (length path)],
               Options = (if opts = ''ttl=0'' then [(''ttl'', ''0'')]
                          else if opts = ''ttl=60'' then [(''ttl'', ''60'')]
                          else []),
               ChannelType = (if CHR ''+'' \<in> set path then ChannelWildcard else ChannelStatic)\<rparr>)"

definition demoTTL :: "channel \<Rightarrow> 64 word \<times> bool" where
  "demoTTL ch =
    (case map_of (Options ch) ''ttl'' of
       None \<Rightarrow> (0, False)
     | Some v \<Rightarrow> if v = ''0'' then (0, True) else if v = ''60'' then (60, True) else (0, False))"

definition demoAuthorize :: "channel \<Rightarrow> 8 word \<Rightarrow> 32 word \<times> demoKey \<times> bool" where
  "demoAuthorize ch required =
    (case demoDecrypt (Key ch) of
       Inl err \<Rightarrow> (0, demoKeyOf 0 False 0, False)
     | Inr k \<Rightarrow>
         if dk_Expired k \<or> dk_Permissions k AND required \<noteq> required then (0, k, False)
         else (case demoContracts (dk_Contract k) of
                 None \<Rightarrow> (0, k, False)
               | Some ct \<Rightarrow> (ct, k, True)))"

definition demoCreateKey :: "string \<Rightarrow> string \<Rightarrow> 8 word \<Rightarrow> time \<Rightarrow> error + string" where
  "demoCreateKey raw ch perms exp =
    (case demoDecrypt raw of
       Inl err \<Rightarrow> Inl ErrUnauthorized
     | Inr k \<Rightarrow>
         if \<not> dk_Master k then Inl ErrUnauthorized
         else (case demoContracts (dk_Contract k) of
                 None \<Rightarrow> Inl ErrNotFound
               | Some ct \<Rightarrow> Inr (''key:'' @ ch)))"

definition demoQuery :: "ssid \<Rightarrow> time \<Rightarrow> time \<Rightarrow> 64 word \<Rightarrow> string + message list" where
  "demoQuery s t0 t1 limit = (if s = [1, 2] then Inl ''store down'' else Inr [])"

definition demoKeyGen :: "bytes \<Rightarrow> keyGenRequest \<Rightarrow> keyGenRequest option" where
  "demoKeyGen payload d =
    (if payload = ''K1'' then Some (d\<lparr>kg_Key := ''m'', kg_Channel := ''a/'', kg_Type := ''rw''\<rparr>)
     else if payload = ''K2'' then Some (d\<lparr>kg_Key := ''n'', kg_Channel := ''a/'', kg_Type := ''rw''\<rparr>)
     else if payload = ''K3'' then Some (d\<lparr>kg_Key := ''u'', kg_Channel := ''a/'', kg_Type := ''rw''\<rparr>)
     else None)"

definition demoLink :: "bytes \<Rightarrow> linkRequest \<Rightarrow> linkRequest option" where
  "demoLink payload d =
    (if payload = ''L1'' then Some (d\<lparr>ln_Name := ''a1'', ln_Key := ''r'', ln_Channel := ''a/''\<rparr>)
     else if payload = ''L2'' then Some (d\<lparr>ln_Name := ''abc'', ln_Key := ''r'', ln_Channel := ''a/''\<rparr>)
     else None)"

definition demoPresence :: "bytes \<Rightarrow> presenceRequest \<Rightarrow> presenceRequest option" where
  "demoPresence payload d =
    (if payload = ''P1'' then Some (d\<lparr>pr_Key := ''p'', pr_Channel := ''a b'', pr_Status := False\<rparr>)
     else if payload = ''P2'' then Some (d\<lparr>pr_Key := ''p'', pr_Channel := ''a''\<rparr>)
     else if payload = ''P3'' then Some (d\<lparr>pr_Key := ''p'', pr_Channel := ''a/'', pr_Status := False\<rparr>)
     else if payload = ''P4'' then Some (d\<lparr>pr_Key := ''w'', pr_Channel := ''a/''\<rparr>)
     else None)"

definition demo :: "(demoKey, 32 word) env" where
  "demo =
    \<lparr>AllowNone = 0, AllowRead = 2, AllowWrite = 4, AllowStore = 8, AllowLoad = 16,
     AllowPresence = 32, AllowExtend = 64, AllowExecute = 128, AllowAll = 254,
     RetainedTTL = 2592000, now = 1500000000000000000,
     ParseChannel = demoParse,
     MakeChannel = (\<lambda>k ch. Some (demoParse (k @ ''/'' @ ch))),
     ChannelString = (\<lambda>ch. Key ch @ ''/'' @ Channel ch),
     SafeString = Channel,
     ChannelTTL = demoTTL,
     Last = (\<lambda>ch. (0, False)),
     Window = (\<lambda>ch. (0, 0)),
     Exclude = (\<lambda>ch. False),
     HasPermission = (\<lambda>k flag. dk_Permissions k AND flag = flag),
     Contract = dk_Contract,
     IsMaster = dk_Master,
     IsExpired = dk_Expired,
     authorize = demoAuthorize,
     DecryptKey = demoDecrypt,
     CreateKey = demoCreateKey,
     ExtendKey = (\<lambda>k ch i perms exp. Inl ErrUnauthorized),
     contractsGet = demoContracts,
     Validate = (\<lambda>ct k. ct = dk_Contract k),
     storageQuery = demoQuery,
     publishSize = (\<lambda>m x. of_nat (length (msg_Payload m))),
     NewSsidForPresence = (\<lambda>s. 0 # s),
     Lookup = (\<lambda>s. []),
     MarshalSsid = (\<lambda>s. None),
     Survey = (\<lambda>q req. None),
     UnmarshalInfo = (\<lambda>b. None),
     unmarshalKeyGen = demoKeyGen,
     unmarshalLink = demoLink,
     unmarshalPresence = demoPresence\<rparr>"

definition demoLinks :: "string \<rightharpoonup> string" where
  "demoLinks = Map.empty"

definition demoConn :: "32 word conn" where
  "demoConn =
    \<lparr>ID = ''c1'', username = ''alice'', links = Some demoLinks, subs = {}, sent = [],
     stored = [], fanout = [], tracked = [], stats = [], replies = []\<rparr>"

definition demoPacket :: "bytes \<Rightarrow> bool \<Rightarrow> publish" where
  "demoPacket t r = \<lparr>Topic = t, Payload = ''hi'', MessageID = 1, Retain = r\<rparr>"

definition demoLinked :: "32 word conn" where
  "demoLinked = demoConn\<lparr>links := Some (demoLinks(''a1'' \<mapsto> ''r/a/''))\<rparr>"

definition demoMsg :: "32 word \<Rightarrow> message" where
  "demoMsg t = \<lparr>msg_Ssid = [1, 2], msg_Channel = ''a/'', msg_Payload = ''hi'', TTL = t\<rparr>"

section \<open>Facts about the example broker\<close>

lemma demo_parse:
  "demoParse ''x/a/'' = \<lparr>Key = ''x'', Channel = ''a/'', Query = [2], Options = [], ChannelType = ChannelStatic\<rparr>"
  "demoParse ''r/b/'' = \<lparr>Key = ''r'', Channel = ''b/'', Query = [2], Options = [], ChannelType = ChannelStatic\<rparr>"
  "demoParse ''w/+/'' = \<lparr>Key = ''w'', Channel = ''+/'', Query = [2], Options = [], ChannelType = ChannelWildcard\<rparr>"
  "demoParse ''w/a/?ttl=0'' = \<lparr>Key = ''w'', Channel = ''a/'', Query = [2], Options = [(''ttl'', ''0'')], ChannelType = ChannelStatic\<rparr>"
  "demoParse ''w/a/?ttl=60'' = \<lparr>Key = ''w'', Channel = ''a/'', Query = [2], Options = [(''ttl'', ''60'')], ChannelType = ChannelStatic\<rparr>"
  "demoParse ''r/a/'' = \<lparr>Key = ''r'', Channel = ''a/'', Query = [2], Options = [], ChannelType = ChannelStatic\<rparr>"
  "demoParse [] = demoInvalid"
  "demoParse ''emitter/a b/'' = demoInvalid"
  "demoParse ''emitter/a/'' = \<lparr>Key = ''emitter'', Channel = ''a/'', Query = [2], Options = [], ChannelType = ChannelStatic\<rparr>"
  by (simp_all add: demoParse_def Let_def)

lemma demo_fields:
  "AllowRead demo = 2" "AllowWrite demo = 4" "AllowExtend demo = 64" "AllowLoad demo = 16"
  "AllowStore demo = 8" "AllowPresence demo = 32" "AllowNone demo = 0"
  "RetainedTTL demo = 2592000"
  "ParseChannel demo = demoParse" "authorize demo = demoAuthorize"
  "HasPermission demo = (\<lambda>k flag. dk_Permissions k AND flag = flag)"
  "Contract demo = dk_Contract" "storageQuery demo = demoQuery"
  "Window demo = (\<lambda>ch. (0, 0))" "Last demo = (\<lambda>ch. (0, False))"
  by (simp_all add: demo_def)

lemma demo_keys:
  "unmarshalKeyGen demo = demoKeyGen" "DecryptKey demo = demoDecrypt"
  "IsExpired demo = dk_Expired" "IsMaster demo = dk_Master" "CreateKey demo = demoCreateKey"
  "contractsGet demo = demoContracts" "Validate demo = (\<lambda>ct k. ct = dk_Contract k)"
  "unmarshalLink demo = demoLink" "unmarshalPresence demo = demoPresence"
  "AllowExecute demo = 128" "now demo = 1500000000000000000"
  "MakeChannel demo = (\<lambda>k ch. Some (demoParse (k @ ''/'' @ ch)))"
  "ChannelString demo = (\<lambda>ch. Key ch @ ''/'' @ Channel ch)"
  "SafeString demo = Channel"
  "Lookup demo = (\<lambda>s. [])" "MarshalSsid demo = (\<lambda>s. None)"
  by (simp_all add: demo_def)

lemma demoConn_fields:
  "ID demoConn = ''c1''" "links demoConn = Some demoLinks" "subs demoConn = {}"
  "fanout demoConn = []" "stored demoConn = []"
  by (simp_all add: demoConn_def)

lemma linkedTopic_long: "2 < length t \<Longrightarrow> linkedTopic c t = t"
  by (simp add: linkedTopic_def)

section \<open>Keys that can be extended\<close>

text \<open>
  Claim C1. A key with the Extend permission that passes the authorization of
  \<^verbatim>\<open>onSubscribe\<close> (for Read, on a channel that parsed) makes it return
  \<^verbatim>\<open>UnauthorizedExt\<close> with the connection as it was: nothing was inserted into the trie.
  One that passes the authorization of \<^verbatim>\<open>onPublish\<close> (for Write, on the static channel
  of the possibly linked topic, whose key is not the literal \<^verbatim>\<open>emitter\<close>) makes it
  return \<^verbatim>\<open>UnauthorizedExt\<close> with the connection as it was: no message was stored or
  fanned out.
\<close>

theorem extend_key_rejected:
  assumes "HasPermission e key (AllowExtend e)"
  shows "(ChannelType (ParseChannel e topic) \<noteq> ChannelInvalid \<and>
          authorize e (ParseChannel e topic) (AllowRead e) = (contract, key, True)
          \<longrightarrow> onSubscribe e c topic = (Some ErrUnauthorizedExt, c))
       \<and> (ChannelType (ParseChannel e (linkedTopic c (Topic packet))) = ChannelStatic \<and>
          Key (ParseChannel e (linkedTopic c (Topic packet))) \<noteq> ''emitter'' \<and>
          authorize e (ParseChannel e (linkedTopic c (Topic packet))) (AllowWrite e)
            = (contract', key, True)
          \<longrightarrow> onPublish e c packet = Return (Some ErrUnauthorizedExt, c))"
  using assms by (simp add: onSubscribe_def onPublish_def Let_def)

theorem extend_key_rejected_witness:
  "HasPermission demo (demoKeyOf 1 False 70) (AllowExtend demo)
   \<and> onSubscribe demo demoConn ''x/a/'' = (Some ErrUnauthorizedExt, demoConn)
   \<and> onPublish demo demoConn (demoPacket ''x/a/'' False)
       = Return (Some ErrUnauthorizedExt, demoConn)"
proof -
  have h: "HasPermission demo (demoKeyOf 1 False 70) (AllowExtend demo)"
    by (simp add: demo_fields demoKeyOf_def)
  have t: "linkedTopic demoConn (Topic (demoPacket ''x/a/'' False)) = ''x/a/''"
    by (simp add: linkedTopic_long demoPacket_def)
  have a: "demoAuthorize (demoParse ''x/a/'') 2 = (1, demoKeyOf 1 False 70, True)"
    "demoAuthorize (demoParse ''x/a/'') 4 = (1, demoKeyOf 1 False 70, True)"
    by (simp_all add: demo_parse demoAuthorize_def demoDecrypt_def demoContracts_def
         demoKeyOf_def)
  show ?thesis
    using h extend_key_rejected [OF h, where topic = "''x/a/''" and contract = 1
        and contract' = 1 and c = demoConn and packet = "demoPacket ''x/a/'' False"]
    by (simp add: t demo_fields a) (simp add: demo_parse)
qed

section \<open>A store that fails on replay\<close>

text \<open>
  Claim C4. When the channel parses, the key is authorized for Read, has no Extend
  and has Load, and the query of the store (for the window of the channel and the
  limit, 1 unless the channel has a \<^verbatim>\<open>last\<close> option) fails, \<^verbatim>\<open>onSubscribe\<close> returns
  \<^verbatim>\<open>ServerError\<close> and the connection it leaves is the one after \<^verbatim>\<open>Subscribe\<close>: the
  entry \<open>(ssid, channel, connection)\<close> is in the trie.
\<close>

theorem subscribe_store_failure_keeps_subscription:
  assumes "channel = ParseChannel e topic"
    and "ChannelType channel \<noteq> ChannelInvalid"
    and "authorize e channel (AllowRead e) = (contract, key, True)"
    and "\<not> HasPermission e key (AllowExtend e)"
    and "HasPermission e key (AllowLoad e)"
    and "s = NewSsid (Contract e key) (Query channel)"
    and "Window e channel = (t0, t1)"
    and "Last e channel = (v, ok)"
    and "storageQuery e s t0 t1 (if ok then v else 1) = Inl err"
  shows "onSubscribe e c topic = (Some ErrServerError, Subscribe s (Channel channel) c)
       \<and> (s, Channel channel, ID c) \<in> subs (snd (onSubscribe e c topic))"
  using assms by (auto simp add: onSubscribe_def Let_def Subscribe_def)

theorem subscribe_store_failure_keeps_subscription_witness:
  "onSubscribe demo demoConn ''r/b/'' = (Some ErrServerError, Subscribe [1, 2] ''b/'' demoConn)
   \<and> ([1, 2], ''b/'', ID demoConn) \<in> subs (snd (onSubscribe demo demoConn ''r/b/''))"
proof -
  have "onSubscribe demo demoConn ''r/b/'' =
      (Some ErrServerError, Subscribe [1, 2] (Channel (demoParse ''r/b/'')) demoConn)
    \<and> ([1, 2], Channel (demoParse ''r/b/''), ID demoConn)
        \<in> subs (snd (onSubscribe demo demoConn ''r/b/''))"
    by (rule subscribe_store_failure_keeps_subscription
          [where e = demo and channel = "demoParse ''r/b/''" and contract = 1
          and key = "demoKeyOf 1 False 18" and ?t0.0 = 0 and ?t1.0 = 0 and v = 0 and ok = False
          and err = "''store down''"])
      (simp_all add: demo_fields demo_parse demoAuthorize_def demoDecrypt_def
         demoContracts_def demoKeyOf_def NewSsid_def demoQuery_def)
  then show ?thesis by (simp add: demo_parse Subscribe_def)
qed

section \<open>Publishing to a channel that is not static\<close>

text \<open>
  Claim C6. When the topic of a publish (after the link substitution) parses to a
  channel that is neither invalid nor static, \<^verbatim>\<open>onPublish\<close> returns \<^verbatim>\<open>Forbidden\<close> and
  leaves the connection as it was: the fan-out was not reached.
\<close>

theorem publish_non_static_forbidden:
  assumes "ChannelType (ParseChannel e (linkedTopic c (Topic packet))) \<noteq> ChannelInvalid"
    and "ChannelType (ParseChannel e (linkedTopic c (Topic packet))) \<noteq> ChannelStatic"
  shows "onPublish e c packet = Return (Some ErrForbidden, c)"
  using assms by (simp add: onPublish_def Let_def)

theorem publish_non_static_forbidden_witness:
  "ChannelType (ParseChannel demo (linkedTopic demoConn (Topic (demoPacket ''w/+/'' False))))
     = ChannelWildcard
   \<and> onPublish demo demoConn (demoPacket ''w/+/'' False) = Return (Some ErrForbidden, demoConn)"
proof -
  have t: "linkedTopic demoConn (Topic (demoPacket ''w/+/'' False)) = ''w/+/''"
    by (simp add: linkedTopic_long demoPacket_def)
  have w: "ChannelType (ParseChannel demo (linkedTopic demoConn (Topic (demoPacket ''w/+/'' False))))
      = ChannelWildcard"
    by (simp add: t demo_fields demo_parse)
  show ?thesis
    using w publish_non_static_forbidden
      [where e = demo and c = demoConn and packet = "demoPacket ''w/+/'' False"]
    by simp
qed

section \<open>Unsubscribing with a key that can be extended\<close>

text \<open>
  Claim C10. \<^verbatim>\<open>onUnsubscribe\<close> checks the authorization for Read and nothing else:
  with a key that has the Extend permission and passes that check on a channel that
  parsed, it returns no error (so never \<^verbatim>\<open>UnauthorizedExt\<close>), and the entry
  \<open>(ssid, channel, connection)\<close> is not in the trie afterwards.
\<close>

theorem unsubscribe_ignores_extend:
  assumes "channel = ParseChannel e topic"
    and "ChannelType channel \<noteq> ChannelInvalid"
    and "authorize e channel (AllowRead e) = (contract, key, True)"
    and "HasPermission e key (AllowExtend e)"
    and "s = NewSsid (Contract e key) (Query channel)"
  shows "onUnsubscribe e c topic = (None, track contract (Unsubscribe s (Channel channel) c))
       \<and> fst (onUnsubscribe e c topic) \<noteq> Some ErrUnauthorizedExt
       \<and> (s, Channel channel, ID c) \<notin> subs (snd (onUnsubscribe e c topic))"
  using assms by (simp add: onUnsubscribe_def Let_def Unsubscribe_def track_def)

theorem unsubscribe_ignores_extend_witness:
  "HasPermission demo (demoKeyOf 1 False 70) (AllowExtend demo)
   \<and> onUnsubscribe demo (Subscribe [1, 2] ''a/'' demoConn) ''x/a/'' = (None, track 1 demoConn)
   \<and> ([1, 2], ''a/'', ''c1'')
       \<notin> subs (snd (onUnsubscribe demo (Subscribe [1, 2] ''a/'' demoConn) ''x/a/''))"
proof -
  have h: "HasPermission demo (demoKeyOf 1 False 70) (AllowExtend demo)"
    by (simp add: demo_fields demoKeyOf_def)
  have i: "ID (Subscribe [1, 2] ''a/'' demoConn) = ''c1''"
    by (simp add: Subscribe_def demoConn_def)
  have u: "Unsubscribe [1, 2] ''a/'' (Subscribe [1, 2] ''a/'' demoConn) = demoConn"
    by (simp add: Unsubscribe_def Subscribe_def demoConn_def)
  have "onUnsubscribe demo (Subscribe [1, 2] ''a/'' demoConn) ''x/a/'' =
      (None, track 1 (Unsubscribe [1, 2] (Channel (demoParse ''x/a/''))
         (Subscribe [1, 2] ''a/'' demoConn)))
    \<and> fst (onUnsubscribe demo (Subscribe [1, 2] ''a/'' demoConn) ''x/a/'')
        \<noteq> Some ErrUnauthorizedExt
    \<and> ([1, 2], Channel (demoParse ''x/a/''), ID (Subscribe [1, 2] ''a/'' demoConn))
        \<notin> subs (snd (onUnsubscribe demo (Subscribe [1, 2] ''a/'' demoConn) ''x/a/''))"
    by (rule unsubscribe_ignores_extend [where e = demo and channel = "demoParse ''x/a/''"
          and contract = 1 and key = "demoKeyOf 1 False 70"])
      (simp_all add: demo_fields demo_parse demoAuthorize_def demoDecrypt_def
         demoContracts_def demoKeyOf_def NewSsid_def)
  moreover have "subs demoConn = {}"
    by (simp add: demoConn_def)
  ultimately show ?thesis
    using h by (simp add: demo_parse i u track_def)
qed

section \<open>The TTL of a published message\<close>

text \<open>
  Claim C2 as it is stated fails: a publish with the retain flag and the explicit
  option \<^verbatim>\<open>ttl=0\<close> is stored and fanned out with \<^verbatim>\<open>RetainedTTL\<close>, not with the TTL
  of the option. The handler takes the option only when \<^verbatim>\<open>ttl > 0\<close>.
\<close>

theorem explicit_ttl_zero_keeps_retained:
  "ChannelTTL demo (ParseChannel demo ''w/a/?ttl=0'') = (0, True)
   \<and> Retain (demoPacket ''w/a/?ttl=0'' True)
   \<and> RetainedTTL demo = 2592000
   \<and> onPublish demo demoConn (demoPacket ''w/a/?ttl=0'' True) =
       Return (None, demoConn
         \<lparr>stored := [demoMsg 2592000], fanout := [(demoMsg 2592000, [])], tracked := [1],
          stats := [AddIngress 1 2, AddEgress 1 2]\<rparr>)
   \<and> TTL (demoMsg 2592000) \<noteq> ucast (0 :: 64 word)"
proof -
  have t: "linkedTopic demoConn ''w/a/?ttl=0'' = ''w/a/?ttl=0''"
    by (simp add: linkedTopic_long)
  have a: "demoAuthorize (demoParse ''w/a/?ttl=0'') 4 = (1, demoKeyOf 1 False 12, True)"
    by (simp add: demo_parse demoAuthorize_def demoDecrypt_def demoContracts_def demoKeyOf_def)
  have f: "ChannelTTL demo = demoTTL" "Exclude demo = (\<lambda>ch. False)"
     "publishSize demo = (\<lambda>m x. of_nat (length (msg_Payload m)))"
    by (simp_all add: demo_def)
  have l: "demoTTL (demoParse ''w/a/?ttl=0'') = (0, True)"
    by (simp add: demo_parse demoTTL_def)
  have p: "onPublish demo demoConn (demoPacket ''w/a/?ttl=0'' True) =
       Return (None, demoConn
         \<lparr>stored := [demoMsg 2592000], fanout := [(demoMsg 2592000, [])], tracked := [1],
          stats := [AddIngress 1 2, AddEgress 1 2]\<rparr>)"
    apply (simp add: onPublish_def Let_def demoPacket_def t demo_fields a f l)
    apply (simp add: demo_parse demoKeyOf_def New_def NewSsid_def Stored_def Store_def track_def
        demoMsg_def demoConn_def)
    done
  show ?thesis
    using p by (simp add: f l demo_fields demoPacket_def demoMsg_def)
qed

text \<open>
  Claim C2, amended. On the path that builds a message (a static channel whose key is
  not \<^verbatim>\<open>emitter\<close>, authorized for Write, without Extend), the message that is fanned
  out has the TTL of the \<^verbatim>\<open>ttl\<close> option, cut to 32 bits, when the option is there and
  positive; otherwise \<^verbatim>\<open>RetainedTTL\<close> when the packet has the retain flag; otherwise 0.
  That message is stored when its TTL is positive and the key has Store.
\<close>

theorem publish_ttl_resolution:
  assumes "channel = ParseChannel e (linkedTopic c (Topic packet))"
    and "ChannelType channel = ChannelStatic"
    and "Key channel \<noteq> ''emitter''"
    and "authorize e channel (AllowWrite e) = (contract, key, True)"
    and "\<not> HasPermission e key (AllowExtend e)"
    and "ChannelTTL e channel = (ttl, ok)"
    and "m = \<lparr>msg_Ssid = NewSsid (Contract e key) (Query channel),
              msg_Channel = Channel channel, msg_Payload = Payload packet,
              TTL = (if ok \<and> 0 <s ttl then ucast ttl
                     else if Retain packet then RetainedTTL e else 0)\<rparr>"
    and "x = (if Exclude e channel then ID c else [])"
  shows "onPublish e c packet =
      Return (None, c
        \<lparr>stored := (if 0 < TTL m \<and> HasPermission e key (AllowStore e)
                     then stored c @ [m] else stored c),
         fanout := fanout c @ [(m, x)],
         tracked := tracked c @ [contract],
         stats := stats c @ [AddIngress contract (of_nat (length (Payload packet))),
                             AddEgress contract (publishSize e m x)]\<rparr>)"
  using assms
  by (simp add: onPublish_def Let_def New_def Stored_def Store_def track_def)

theorem publish_ttl_resolution_witness:
  "onPublish demo demoConn (demoPacket ''w/a/?ttl=60'' True) =
       Return (None, demoConn
         \<lparr>stored := [demoMsg 60], fanout := [(demoMsg 60, [])], tracked := [1],
          stats := [AddIngress 1 2, AddEgress 1 2]\<rparr>)"
proof -
  have t: "linkedTopic demoConn (Topic (demoPacket ''w/a/?ttl=60'' True)) = ''w/a/?ttl=60''"
    by (simp add: linkedTopic_long demoPacket_def)
  have f: "ChannelTTL demo = demoTTL" "Exclude demo = (\<lambda>ch. False)"
     "publishSize demo = (\<lambda>m x. of_nat (length (msg_Payload m)))"
    by (simp_all add: demo_def)
  have w: "(0 :: 64 word) <s 60" "ucast (60 :: 64 word) = (60 :: 32 word)"
    by (simp_all add: word_sless_alt)
  have "onPublish demo demoConn (demoPacket ''w/a/?ttl=60'' True) =
      Return (None, demoConn
        \<lparr>stored := (if 0 < TTL (demoMsg 60)
                       \<and> HasPermission demo (demoKeyOf 1 False 12) (AllowStore demo)
                     then stored demoConn @ [demoMsg 60] else stored demoConn),
         fanout := fanout demoConn @ [(demoMsg 60, [])],
         tracked := tracked demoConn @ [1],
         stats := stats demoConn @
           [AddIngress 1 (of_nat (length (Payload (demoPacket ''w/a/?ttl=60'' True)))),
            AddEgress 1 (publishSize demo (demoMsg 60) [])]\<rparr>)"
    by (rule publish_ttl_resolution
          [where channel = "demoParse ''w/a/?ttl=60''" and ttl = 60 and ok = True])
      (simp_all add: t linkedTopic_long f w demo_fields demo_parse demoAuthorize_def
         demoDecrypt_def demoContracts_def demoKeyOf_def demoTTL_def demoMsg_def NewSsid_def
         demoPacket_def)
  then show ?thesis
    by (simp add: f demo_fields demoKeyOf_def demoMsg_def demoPacket_def demoConn_def)
qed

section \<open>The link of a short topic\<close>

text \<open>
  Claim C3 as it is stated fails: on a connection whose link map is not nil, a topic of
  two bytes that names no link is replaced all the same, by the empty string.
\<close>

theorem missing_link_substitutes_empty:
  "links demoConn = Some demoLinks \<and> demoLinks ''ab'' = None \<and> length ''ab'' \<le> 2
   \<and> linkedTopic demoConn ''ab'' = [] \<and> linkedTopic demoConn ''ab'' \<noteq> ''ab''"
  by (simp add: linkedTopic_def mapRead_def demoConn_fields demoLinks_def)

text \<open>
  Claim C3, amended. A topic of at most two bytes on a connection whose link map is
  not nil is replaced by the entry of the map: the stored channel string when a link
  of that name exists, the empty string when none does. A longer topic, and any topic
  when the map is nil, is parsed as it came. So a publish on a short topic with a link
  to a longer channel string is the publish on that string, and one without a link is a
  \<^verbatim>\<open>BadRequest\<close> when the parser rejects the empty topic.
\<close>

theorem link_substitution:
  "(length topic \<le> 2 \<and> links c = Some m \<longrightarrow>
      linkedTopic c topic = (case m topic of None \<Rightarrow> [] | Some K \<Rightarrow> K))
   \<and> (2 < length topic \<or> links c = None \<longrightarrow> linkedTopic c topic = topic)
   \<and> (length (Topic packet) \<le> 2 \<and> links c = Some m \<and> m (Topic packet) = Some K \<and> 2 < length K \<longrightarrow>
        onPublish e c packet = onPublish e c (packet\<lparr>Topic := K\<rparr>))
   \<and> (length (Topic packet) \<le> 2 \<and> links c = Some m \<and> m (Topic packet) = None \<and>
        ChannelType (ParseChannel e []) = ChannelInvalid \<longrightarrow>
        onPublish e c packet = Return (Some ErrBadRequest, c))"
proof (intro conjI impI)
  assume "length topic \<le> 2 \<and> links c = Some m"
  then show "linkedTopic c topic = (case m topic of None \<Rightarrow> [] | Some K \<Rightarrow> K)"
    by (simp add: linkedTopic_def mapRead_def)
next
  assume "2 < length topic \<or> links c = None"
  then show "linkedTopic c topic = topic"
    by (auto simp add: linkedTopic_def)
next
  assume h: "length (Topic packet) \<le> 2 \<and> links c = Some m \<and> m (Topic packet) = Some K \<and> 2 < length K"
  then have t: "linkedTopic c (Topic packet) = K" "linkedTopic c K = K"
    by (simp_all add: linkedTopic_def mapRead_def)
  have p: "Topic (packet\<lparr>Topic := K\<rparr>) = K" "Payload (packet\<lparr>Topic := K\<rparr>) = Payload packet"
    "MessageID (packet\<lparr>Topic := K\<rparr>) = MessageID packet"
    "Retain (packet\<lparr>Topic := K\<rparr>) = Retain packet"
    by simp_all
  show "onPublish e c packet = onPublish e c (packet\<lparr>Topic := K\<rparr>)"
    unfolding onPublish_def p t by (rule refl)
next
  assume "length (Topic packet) \<le> 2 \<and> links c = Some m \<and> m (Topic packet) = None \<and>
        ChannelType (ParseChannel e []) = ChannelInvalid"
  then show "onPublish e c packet = Return (Some ErrBadRequest, c)"
    by (simp add: onPublish_def linkedTopic_def mapRead_def)
qed

theorem link_substitution_witness:
  "linkedTopic demoLinked ''a1'' = ''r/a/''
   \<and> linkedTopic demoLinked ''r/a/'' = ''r/a/''
   \<and> onPublish demo demoLinked (demoPacket ''a1'' False)
       = onPublish demo demoLinked (demoPacket ''r/a/'' False)
   \<and> onPublish demo demoConn (demoPacket ''ab'' False) = Return (Some ErrBadRequest, demoConn)"
proof -
  let ?m = "demoLinks(''a1'' \<mapsto> ''r/a/'')"
  have l: "links demoLinked = Some ?m" "?m ''a1'' = Some ''r/a/''"
    by (simp_all add: demoLinked_def)
  have n: "links demoConn = Some demoLinks" "demoLinks ''ab'' = None"
    by (simp_all add: demoConn_fields demoLinks_def)
  have i: "ChannelType (ParseChannel demo []) = ChannelInvalid"
    by (simp add: demo_fields demo_parse demoInvalid_def)
  have p: "(demoPacket ''a1'' False)\<lparr>Topic := ''r/a/''\<rparr> = demoPacket ''r/a/'' False"
    "Topic (demoPacket t r) = t" for t r
    by (simp_all add: demoPacket_def)
  have "linkedTopic demoLinked ''a1'' = ''r/a/''"
    using link_substitution [where c = demoLinked and topic = "''a1''" and m = ?m and e = demo
        and packet = "demoPacket ''a1'' False" and K = "''r/a/''"] l by simp
  moreover have "linkedTopic demoLinked ''r/a/'' = ''r/a/''"
    using link_substitution [where c = demoLinked and topic = "''r/a/''" and m = ?m and e = demo
        and packet = "demoPacket ''a1'' False" and K = "''r/a/''"] by simp
  moreover have "onPublish demo demoLinked (demoPacket ''a1'' False)
       = onPublish demo demoLinked (demoPacket ''r/a/'' False)"
    using link_substitution [where c = demoLinked and packet = "demoPacket ''a1'' False" and m = ?m
        and K = "''r/a/''" and e = demo and topic = "''a1''"] l
    by (simp add: p)
  moreover have "onPublish demo demoConn (demoPacket ''ab'' False)
      = Return (Some ErrBadRequest, demoConn)"
    using link_substitution [where c = demoConn and packet = "demoPacket ''ab'' False" and m = demoLinks
        and e = demo and topic = "''ab''" and K = "[]"] n i
    by (simp add: p)
  ultimately show ?thesis by simp
qed

section \<open>Key generation\<close>

lemma sint_scast_up: "sint (scast (t :: 32 word) :: 64 word) = sint t"
  by (rule sint_up_scast) (simp add: is_up)

lemma sint_seconds:
  "sint ((scast (t :: 32 word) :: 64 word) * 1000000000) = sint t * 1000000000"
proof -
  have b: "- (2 ^ 31) \<le> sint t" "sint t < 2 ^ 31"
    using sint_ge [of t] sint_lt [of t] by simp_all
  have "sint ((scast t :: 64 word) * 1000000000) = signed_take_bit 63 (sint t * 1000000000)"
    by (simp add: sint_word_ariths sint_scast_up)
  also have "\<dots> = sint t * 1000000000"
    using b by (intro signed_take_bit_int_eq_self) simp_all
  finally show ?thesis .
qed

lemma expires_seconds:
  "expires e m = (if kg_TTL m = 0 then 0 else now e + sint (kg_TTL m) * 1000000000)"
  by (simp add: expires_def sint_seconds)

lemma accessLoop_bits:
  "bit (accessLoop e t required) n \<longleftrightarrow>
     bit required n \<or> (\<exists>ch \<in> set t. \<exists>p. permissionOf e ch = Some p \<and> bit p n)"
proof (induction t arbitrary: required)
  case Nil
  then show ?case by simp
next
  case (Cons c cs)
  show ?case
    unfolding accessLoop.simps Cons.IH
    by (auto simp add: permissionOf_def bit_or_iff split: if_splits)
qed

text \<open>
  Claim C5 as it is stated fails: for a master key that decrypts and has not expired,
  \<^verbatim>\<open>CreateKey\<close> can still fail (here the contract of the key is unknown), and
  \<^verbatim>\<open>onKeyGen\<close> then returns that error, not a response with status 200.
\<close>

theorem keygen_master_create_fails:
  "unmarshalKeyGen demo ''K2'' \<lparr>kg_Key = [], kg_Channel = [], kg_Type = [], kg_TTL = 0\<rparr>
     = Some \<lparr>kg_Key = ''n'', kg_Channel = ''a/'', kg_Type = ''rw'', kg_TTL = 0\<rparr>
   \<and> DecryptKey demo ''n'' = Inr (demoKeyOf 9 True 1)
   \<and> \<not> IsExpired demo (demoKeyOf 9 True 1)
   \<and> IsMaster demo (demoKeyOf 9 True 1)
   \<and> onKeyGen demo demoConn ''K2'' = Return (Some (ErrorResponse ErrNotFound), False)"
  by (simp add: onKeyGen_def demo_keys demoKeyGen_def demoDecrypt_def demoKeyOf_def
        demoCreateKey_def demoContracts_def)

text \<open>
  Claim C5, amended. For a keygen request whose parent key decrypts and has not
  expired: if the parent is a master key and \<^verbatim>\<open>CreateKey\<close>, called with the requested
  access and expiry, succeeds, \<^verbatim>\<open>onKeyGen\<close> returns status 200 with the created key and
  the channel of the request, and if \<^verbatim>\<open>CreateKey\<close> fails it returns that error. The
  requested access has exactly the bits of \<^verbatim>\<open>AllowNone\<close> and of the permissions that
  the characters of \<^verbatim>\<open>type\<close> stand for (unknown characters add nothing); the requested
  expiry is the epoch when \<^verbatim>\<open>ttl = 0\<close> and \<open>now + ttl\<close> seconds otherwise. A parent that
  decrypts and is neither a master key nor has Extend gets \<^verbatim>\<open>Unauthorized\<close>, expired
  or not.
\<close>

theorem keygen_outcomes:
  assumes "unmarshalKeyGen e payload \<lparr>kg_Key = [], kg_Channel = [], kg_Type = [], kg_TTL = 0\<rparr>
             = Some m"
  shows "(\<forall>parent. DecryptKey e (kg_Key m) = Inr parent \<and> \<not> IsExpired e parent \<and>
             IsMaster e parent \<longrightarrow>
           (\<forall>k. CreateKey e (kg_Key m) (kg_Channel m) (access e m) (expires e m) = Inr k \<longrightarrow>
              onKeyGen e c payload = Return (Some (KeyGenResponse 200 k (kg_Channel m)), True))
         \<and> (\<forall>err. CreateKey e (kg_Key m) (kg_Channel m) (access e m) (expires e m) = Inl err \<longrightarrow>
              onKeyGen e c payload = Return (Some (ErrorResponse err), False)))
       \<and> (\<forall>n. bit (access e m) n \<longleftrightarrow>
             bit (AllowNone e) n \<or>
             (\<exists>ch \<in> set (kg_Type m). \<exists>p. permissionOf e ch = Some p \<and> bit p n))
       \<and> expires e m = (if kg_TTL m = 0 then 0 else now e + sint (kg_TTL m) * 1000000000)
       \<and> (\<forall>parent. DecryptKey e (kg_Key m) = Inr parent \<and> \<not> IsMaster e parent \<and>
             \<not> HasPermission e parent (AllowExtend e) \<longrightarrow>
            onKeyGen e c payload = Return (Some (ErrorResponse ErrUnauthorized), False))"
proof (intro conjI impI allI)
  fix parent k
  assume "DecryptKey e (kg_Key m) = Inr parent \<and> \<not> IsExpired e parent \<and> IsMaster e parent"
    and "CreateKey e (kg_Key m) (kg_Channel m) (access e m) (expires e m) = Inr k"
  with assms show "onKeyGen e c payload = Return (Some (KeyGenResponse 200 k (kg_Channel m)), True)"
    by (simp add: onKeyGen_def)
next
  fix parent err
  assume "DecryptKey e (kg_Key m) = Inr parent \<and> \<not> IsExpired e parent \<and> IsMaster e parent"
    and "CreateKey e (kg_Key m) (kg_Channel m) (access e m) (expires e m) = Inl err"
  with assms show "onKeyGen e c payload = Return (Some (ErrorResponse err), False)"
    by (simp add: onKeyGen_def)
next
  fix n
  show "bit (access e m) n \<longleftrightarrow>
      bit (AllowNone e) n \<or> (\<exists>ch \<in> set (kg_Type m). \<exists>p. permissionOf e ch = Some p \<and> bit p n)"
    by (simp add: access_def accessLoop_bits)
next
  show "expires e m = (if kg_TTL m = 0 then 0 else now e + sint (kg_TTL m) * 1000000000)"
    by (rule expires_seconds)
next
  fix parent
  assume "DecryptKey e (kg_Key m) = Inr parent \<and> \<not> IsMaster e parent \<and>
    \<not> HasPermission e parent (AllowExtend e)"
  with assms show "onKeyGen e c payload = Return (Some (ErrorResponse ErrUnauthorized), False)"
    by (simp add: onKeyGen_def)
qed

theorem keygen_outcomes_witness:
  "onKeyGen demo demoConn ''K1'' = Return (Some (KeyGenResponse 200 ''key:a/'' ''a/''), True)
   \<and> access demo \<lparr>kg_Key = ''m'', kg_Channel = ''a/'', kg_Type = ''rw'', kg_TTL = 0\<rparr> = 6
   \<and> expires demo \<lparr>kg_Key = ''m'', kg_Channel = ''a/'', kg_Type = ''rw'', kg_TTL = 0\<rparr> = 0
   \<and> onKeyGen demo demoConn ''K3'' = Return (Some (ErrorResponse ErrUnauthorized), False)"
proof -
  let ?m = "\<lparr>kg_Key = ''m'', kg_Channel = ''a/'', kg_Type = ''rw'', kg_TTL = 0\<rparr>"
  let ?u = "\<lparr>kg_Key = ''u'', kg_Channel = ''a/'', kg_Type = ''rw'', kg_TTL = 0\<rparr>"
  have a: "access demo ?m = 6"
    by (simp add: access_def demo_fields)
  have x: "expires demo ?m = 0"
    by (simp add: expires_def)
  have m1: "unmarshalKeyGen demo ''K1''
      \<lparr>kg_Key = [], kg_Channel = [], kg_Type = [], kg_TTL = 0\<rparr> = Some ?m"
    and m2: "DecryptKey demo (kg_Key ?m) = Inr (demoKeyOf 1 True 1)"
    and m3: "\<not> IsExpired demo (demoKeyOf 1 True 1)"
    by (simp_all add: demo_keys demoKeyGen_def demoDecrypt_def demoKeyOf_def)
  have u1: "unmarshalKeyGen demo ''K3''
      \<lparr>kg_Key = [], kg_Channel = [], kg_Type = [], kg_TTL = 0\<rparr> = Some ?u"
    and u2: "DecryptKey demo (kg_Key ?u) = Inr (demoKeyOf 1 False 2)"
    by (simp_all add: demo_keys demoKeyGen_def demoDecrypt_def demoKeyOf_def)
  have ck: "CreateKey demo (kg_Key ?m) (kg_Channel ?m) (access demo ?m) (expires demo ?m)
      = Inr ''key:a/''"
    by (simp add: demo_keys demoCreateKey_def demoDecrypt_def demoKeyOf_def demoContracts_def)
  have pm: "IsMaster demo (demoKeyOf 1 True 1)"
    and pu: "\<not> IsMaster demo (demoKeyOf 1 False 2)"
      "\<not> HasPermission demo (demoKeyOf 1 False 2) (AllowExtend demo)"
    by (simp_all add: demo_keys demo_fields demoKeyOf_def)
  from keygen_outcomes [OF m1, of demoConn] m2 m3 pm ck
  have "onKeyGen demo demoConn ''K1'' = Return (Some (KeyGenResponse 200 ''key:a/'' ''a/''), True)"
    by simp
  moreover from keygen_outcomes [OF u1, of demoConn] u2 pu
  have "onKeyGen demo demoConn ''K3'' = Return (Some (ErrorResponse ErrUnauthorized), False)"
    by simp
  ultimately show ?thesis using a x by simp
qed

section \<open>Presence\<close>

text \<open>
  Claim C7 as it is stated fails: with a key that is authorized and a contract that is
  found and validates, a request whose channel does not parse gets \<^verbatim>\<open>BadRequest\<close>,
  whatever its status field says; with \<^verbatim>\<open>status\<close> false the call does not succeed
  without a body.
\<close>

theorem presence_invalid_channel:
  "unmarshalPresence demo ''P1''
      \<lparr>pr_Key = [], pr_Channel = [], pr_Status = True, pr_Changes = None\<rparr>
     = Some \<lparr>pr_Key = ''p'', pr_Channel = ''a b'', pr_Status = False, pr_Changes = None\<rparr>
   \<and> DecryptKey demo ''p'' = Inr (demoKeyOf 1 False 32)
   \<and> HasPermission demo (demoKeyOf 1 False 32) (AllowPresence demo)
   \<and> \<not> IsExpired demo (demoKeyOf 1 False 32)
   \<and> contractsGet demo (Contract demo (demoKeyOf 1 False 32)) = Some 1
   \<and> Validate demo 1 (demoKeyOf 1 False 32)
   \<and> onPresence demo demoConn ''P1'' = ((Some (ErrorResponse ErrBadRequest), False), demoConn)
   \<and> fst (onPresence demo demoConn ''P1'') \<noteq> (None, True)"
  by (simp add: onPresence_def demo_keys demo_fields demoPresence_def demoDecrypt_def
        demoKeyOf_def demoContracts_def HasSuffix_def demo_parse demoInvalid_def)

text \<open>
  Claim C7, amended. For a presence request whose JSON body parses: a key that does
  not decrypt, lacks Presence or has expired gets \<^verbatim>\<open>Unauthorized\<close>; a contract that is
  absent gets \<^verbatim>\<open>NotFound\<close>; and when the contract is found and validates the key, a
  channel that does not parse gets \<^verbatim>\<open>BadRequest\<close>, and for a channel that parses the
  response is the body with the event \<^verbatim>\<open>status\<close> and the gathered list when the status
  field is true, and no body, with success, when it is false.
\<close>

theorem presence_outcomes:
  assumes "unmarshalPresence e payload
             \<lparr>pr_Key = [], pr_Channel = [], pr_Status = True, pr_Changes = None\<rparr> = Some msg"
    and "name = (if HasSuffix (pr_Channel msg) ''/'' then pr_Channel msg else pr_Channel msg @ ''/'')"
    and "channel = ParseChannel e (''emitter/'' @ name)"
  shows "((\<exists>err. DecryptKey e (pr_Key msg) = Inl err) \<or>
          (\<exists>k. DecryptKey e (pr_Key msg) = Inr k \<and>
               (\<not> HasPermission e k (AllowPresence e) \<or> IsExpired e k))
          \<longrightarrow> onPresence e c payload = ((Some (ErrorResponse ErrUnauthorized), False), c))
       \<and> (\<forall>k. DecryptKey e (pr_Key msg) = Inr k \<and> HasPermission e k (AllowPresence e) \<and>
               \<not> IsExpired e k \<and> contractsGet e (Contract e k) = None
          \<longrightarrow> onPresence e c payload = ((Some (ErrorResponse ErrNotFound), False), c))
       \<and> (\<forall>k ct. DecryptKey e (pr_Key msg) = Inr k \<and> HasPermission e k (AllowPresence e) \<and>
               \<not> IsExpired e k \<and> contractsGet e (Contract e k) = Some ct \<and> Validate e ct k
          \<longrightarrow> (ChannelType channel = ChannelInvalid \<longrightarrow>
                 onPresence e c payload = ((Some (ErrorResponse ErrBadRequest), False), c))
            \<and> (ChannelType channel \<noteq> ChannelInvalid \<and> pr_Status msg \<longrightarrow>
                 fst (onPresence e c payload) =
                   (Some (PresenceResponse (now e div 1000000000) ''status'' name
                      (getAllPresence e (NewSsid (Contract e k) (Query channel)))), True))
            \<and> (ChannelType channel \<noteq> ChannelInvalid \<and> \<not> pr_Status msg \<longrightarrow>
                 fst (onPresence e c payload) = (None, True)))"
  using assms
  by (auto simp add: onPresence_def Let_def presenceStatusEvent_def)

theorem presence_outcomes_witness:
  "onPresence demo demoConn ''P4'' = ((Some (ErrorResponse ErrUnauthorized), False), demoConn)
   \<and> fst (onPresence demo demoConn ''P2'') =
       (Some (PresenceResponse 1500000000 ''status'' ''a/'' []), True)
   \<and> fst (onPresence demo demoConn ''P3'') = (None, True)"
proof -
  let ?d = "\<lparr>pr_Key = [], pr_Channel = [], pr_Status = True, pr_Changes = None\<rparr>"
  have p4: "unmarshalPresence demo ''P4'' ?d = Some (?d\<lparr>pr_Key := ''w'', pr_Channel := ''a/''\<rparr>)"
    and p2: "unmarshalPresence demo ''P2'' ?d = Some (?d\<lparr>pr_Key := ''p'', pr_Channel := ''a''\<rparr>)"
    and p3: "unmarshalPresence demo ''P3'' ?d
              = Some (?d\<lparr>pr_Key := ''p'', pr_Channel := ''a/'', pr_Status := False\<rparr>)"
    by (simp_all add: demo_keys demoPresence_def)
  have k: "DecryptKey demo ''p'' = Inr (demoKeyOf 1 False 32)"
    "DecryptKey demo ''w'' = Inr (demoKeyOf 1 False 12)"
    "HasPermission demo (demoKeyOf 1 False 32) (AllowPresence demo)"
    "\<not> HasPermission demo (demoKeyOf 1 False 12) (AllowPresence demo)"
    "\<not> IsExpired demo (demoKeyOf 1 False 32)"
    "contractsGet demo (Contract demo (demoKeyOf 1 False 32)) = Some 1"
    "Validate demo 1 (demoKeyOf 1 False 32)"
    by (simp_all add: demo_keys demo_fields demoDecrypt_def demoKeyOf_def demoContracts_def)
  have g: "getAllPresence demo s = []" for s
    by (simp add: getAllPresence_def getLocalPresence_def lookupPresence_def
          getClusterPresence_def demo_keys)
  have ch: "ParseChannel demo ''emitter/a/'' = demoParse ''emitter/a/''"
    by (simp add: demo_fields)
  have "onPresence demo demoConn ''P4'' = ((Some (ErrorResponse ErrUnauthorized), False), demoConn)"
    using presence_outcomes [OF p4 refl refl, of demoConn] k by simp
  moreover have "fst (onPresence demo demoConn ''P2'') =
       (Some (PresenceResponse 1500000000 ''status'' ''a/'' []), True)"
    using presence_outcomes [OF p2 refl refl, of demoConn] k
    by (simp add: HasSuffix_def ch demo_parse g demo_keys)
  moreover have "fst (onPresence demo demoConn ''P3'') = (None, True)"
    using presence_outcomes [OF p3 refl refl, of demoConn] k
    by (simp add: HasSuffix_def ch demo_parse)
  ultimately show ?thesis by simp
qed

section \<open>Link names\<close>

lemma matchRun_iff:
  "matchRun cls lo hi s \<longleftrightarrow> lo \<le> length s \<and> length s \<le> hi \<and> (\<forall>c \<in> set s. cls c)"
  by (induction s arbitrary: lo hi) auto

lemma shortcutClass_alnum: "shortcutClass c \<longleftrightarrow> c \<in> alnum"
proof (cases c)
  case (Char b0 b1 b2 b3 b4 b5 b6 b7)
  show ?thesis
    unfolding Char shortcutClass_def inRange_def alnum_def
    by (cases b0; cases b1; cases b2; cases b3; cases b4; cases b5; cases b6; cases b7; simp)
qed

lemma shortcut_grammar: "shortcut name \<longleftrightarrow> shortcutGrammar name"
  by (auto simp add: shortcut_def shortcutGrammar_def matchRun_iff shortcutClass_alnum)

text \<open>
  Claim C8. A link request whose name is not one or two letters or digits (so also
  the empty name, a name of three characters, a name with another character) gets
  \<^verbatim>\<open>LinkInvalid\<close>, and the connection, its link map with it, stays as it was.
\<close>

theorem link_invalid_name:
  assumes "unmarshalLink e payload
      \<lparr>ln_Name = [], ln_Key = [], ln_Channel = [], ln_Subscribe = False, ln_Private = False\<rparr>
        = Some request"
    and "\<not> shortcutGrammar (ln_Name request)"
  shows "onLink e c payload = Return ((Some (ErrorResponse ErrLinkInvalid), False), c)"
  using assms by (simp add: onLink_def shortcut_grammar)

theorem link_invalid_name_witness:
  "\<not> shortcutGrammar ''abc''
   \<and> onLink demo demoConn ''L2'' = Return ((Some (ErrorResponse ErrLinkInvalid), False), demoConn)"
proof -
  have g: "\<not> shortcutGrammar ''abc''"
    by (simp add: shortcutGrammar_def)
  have r: "unmarshalLink demo ''L2''
      \<lparr>ln_Name = [], ln_Key = [], ln_Channel = [], ln_Subscribe = False, ln_Private = False\<rparr>
      = Some \<lparr>ln_Name = ''abc'', ln_Key = ''r'', ln_Channel = ''a/'', ln_Subscribe = False,
              ln_Private = False\<rparr>"
    by (simp add: demo_keys demoLink_def)
  show ?thesis
    using g link_invalid_name [OF r, of demoConn] by simp
qed

section \<open>Link, then me\<close>



end
